theory Spec2Isabelle
  imports Main "HOL-Library.Sublist"
begin

section \<open>The fetch-and-cache client (src/services/api.js)\<close>

subsection \<open>JavaScript values the module handles\<close>

text \<open>
  A JavaScript string is modelled as a \<^typ>\<open>string\<close>, one \<^typ>\<open>char\<close> per code unit
  (all code units the module itself writes are below 256). The accented letter of the
  Spanish messages is the code unit U+00F3.
\<close>

definition o_acute :: char where
  "o_acute = CHR 0xF3"

text \<open>An error object, as far as the handler reads it: \<open>error.name\<close> and \<open>error.message\<close>.\<close>

record js_error =
  name :: string
  message :: string

text \<open>\<open>new Error(msg)\<close>: the name of a plain \<open>Error\<close> is \<open>"Error"\<close>.\<close>

definition Error :: "string \<Rightarrow> js_error" where
  "Error msg = \<lparr>name = ''Error'', message = msg\<rparr>"

text \<open>\<open>String.prototype.includes\<close>: the pattern occurs as a contiguous substring.\<close>

fun String_includes :: "string \<Rightarrow> string \<Rightarrow> bool" where
  "String_includes [] p = (p = [])"
| "String_includes (c # cs) p = (prefix p (c # cs) \<or> String_includes cs p)"

text \<open>
  A number inside a template literal: the decimal digits of a natural number
  (\<open>response.status\<close> is an unsigned integer).
\<close>

fun String_nat :: "nat \<Rightarrow> string" where
  "String_nat n =
     (if n < 10 then [''0123456789'' ! n]
      else String_nat (n div 10) @ [''0123456789'' ! (n mod 10)])"

declare String_nat.simps [simp del]

subsection \<open>The cache: a JavaScript \<open>Map\<close>\<close>

text \<open>
  \<open>const CACHE = new Map()\<close>. A \<open>Map\<close> keeps its entries in insertion order, which is the
  order \<open>CACHE.entries()\<close> iterates in, so it is modelled as an association list.
  \<open>get\<close> finds the entry of a key, \<open>set\<close> replaces the value of a key that is present
  (at its place) and appends a new key at the end, \<open>delete\<close> removes the key.
\<close>

record 'p cache_entry =
  data :: 'p
  timestamp :: int

type_synonym 'p cache = "(string \<times> 'p cache_entry) list"

fun Map_get :: "('k \<times> 'v) list \<Rightarrow> 'k \<Rightarrow> 'v option" where
  "Map_get [] k = None"
| "Map_get ((k', v) # m) k = (if k' = k then Some v else Map_get m k)"

fun Map_set :: "('k \<times> 'v) list \<Rightarrow> 'k \<Rightarrow> 'v \<Rightarrow> ('k \<times> 'v) list" where
  "Map_set [] k v = [(k, v)]"
| "Map_set ((k', v') # m) k v = (if k' = k then (k, v) # m else (k', v') # Map_set m k v)"

fun Map_delete :: "('k \<times> 'v) list \<Rightarrow> 'k \<Rightarrow> ('k \<times> 'v) list" where
  "Map_delete [] k = []"
| "Map_delete ((k', v') # m) k = (if k' = k then Map_delete m k else (k', v') # Map_delete m k)"

text \<open>The representation invariant of a \<open>Map\<close>: one entry per key.\<close>

definition Map_inv :: "('k \<times> 'v) list \<Rightarrow> bool" where
  "Map_inv m = distinct (map fst m)"

text \<open>\<open>const CACHE_DURATION = 5 * 60 * 1000\<close> (milliseconds).\<close>

definition CACHE_DURATION :: int where
  "CACHE_DURATION = 5 * 60 * 1000"

subsection \<open>The world the module acts on\<close>

text \<open>
  What the console receives, one constructor per logging statement of the two source
  files (the decorative prefix and the byte count of the success line are left out).
\<close>

datatype log_line =
    CacheHit string
  | ApiCall string
  | ApiSuccess string
  | ApiError string js_error
  | CacheCleaned nat
  | ViewportError js_error

text \<open>
  The module-level state and the effects of a call: the shared cache, the requests handed
  to \<open>fetch\<close> (oldest first) and the console.
\<close>

record 'p world =
  CACHE :: "'p cache"
  network :: "string list"
  console :: "log_line list"

definition initial_world :: "'p world" where
  "initial_world = \<lparr>CACHE = [], network = [], console = []\<rparr>"

text \<open>
  What the network answers to one request. \<open>fetch\<close> either rejects with an error object
  (a \<open>DOMException\<close> named \<open>TimeoutError\<close> when \<open>AbortSignal.timeout(10000)\<close> fires, one
  named \<open>AbortError\<close> when the request is aborted, a \<open>TypeError\<close> on a network failure) or
  resolves with a response. Of the response the code reads \<open>status\<close>, \<open>statusText\<close>,
  \<open>ok\<close> and the outcome of \<open>response.json()\<close>, which rejects when the body does not parse.
\<close>

record 'p response =
  status :: nat
  statusText :: string
  json :: "js_error + 'p"

text \<open>\<open>response.ok\<close>: the status is in the range 200 to 299.\<close>

definition ok :: "'p response \<Rightarrow> bool" where
  "ok r = (200 \<le> status r \<and> status r \<le> 299)"

datatype 'p fetch_result = Rejected js_error | Resolved "'p response"

subsection \<open>\<open>loadMapData\<close>\<close>

definition timeout_message :: string where
  "timeout_message = ''El servidor tard'' @ [o_acute] @ '' demasiado en responder''"

definition cancelled_message :: string where
  "cancelled_message = ''La petici'' @ [o_acute] @ ''n fue cancelada''"

definition server_message :: "string \<Rightarrow> string" where
  "server_message m = ''Error del servidor: '' @ m"

definition connection_message :: string where
  "connection_message = ''Error de conexi'' @ [o_acute] @ ''n. Verifica tu internet.''"

text \<open>
  The \<open>try\<close> block (lines 46 to 93), entered after the request is logged. \<open>now'\<close> is what
  \<open>Date.now()\<close> returns when the entry is stored. \<open>Inl\<close> is a thrown error: the
  rejection of \<open>fetch\<close>, the \<open>Error\<close> thrown for a response that is not \<open>ok\<close>, or the
  rejection of \<open>response.json()\<close>. Nothing throws once the entry is stored:
  \<open>getDataSize\<close> catches its own errors.
\<close>

definition load_try :: "string \<Rightarrow> 'p fetch_result \<Rightarrow> int \<Rightarrow> 'p world \<Rightarrow> (js_error + 'p) \<times> 'p world" where
  "load_try url net now' w =
     (case net of
        Rejected e \<Rightarrow> (Inl e, w)
      | Resolved r \<Rightarrow>
          if \<not> ok r then
            (Inl (Error (''HTTP '' @ String_nat (status r) @ '': '' @ statusText r)), w)
          else
            (case json r of
               Inl e \<Rightarrow> (Inl e, w)
             | Inr d \<Rightarrow>
                 (Inr d,
                  w\<lparr>CACHE := Map_set (CACHE w) url \<lparr>data = d, timestamp = now'\<rparr>,
                    console := console w @ [ApiSuccess url]\<rparr>)))"

text \<open>The \<open>catch\<close> block (lines 95 to 113): the error that is thrown to the caller.\<close>

definition load_catch :: "js_error \<Rightarrow> js_error" where
  "load_catch error =
     (if name error = ''TimeoutError'' then Error timeout_message
      else if name error = ''AbortError'' then Error cancelled_message
      else if String_includes (message error) ''HTTP'' then Error (server_message (message error))
      else Error connection_message)"

text \<open>
  The part of \<open>loadMapData\<close> that runs once the request has been issued: the rest of the
  \<open>try\<close> block and the handler.
\<close>

definition load_finish :: "string \<Rightarrow> 'p fetch_result \<Rightarrow> int \<Rightarrow> 'p world \<Rightarrow> (js_error + 'p) \<times> 'p world" where
  "load_finish url net now' w =
     (case load_try url net now' w of
        (Inr d, w') \<Rightarrow> (Inr d, w')
      | (Inl error, w') \<Rightarrow>
          (Inl (load_catch error), w'\<lparr>console := console w' @ [ApiError url error]\<rparr>))"

text \<open>
  The part that runs before the first \<open>await\<close> (lines 38 to 55): the lookup, and the
  request when no fresh entry is found. \<open>now\<close> is what \<open>Date.now()\<close> returns at the lookup.
  \<open>Some d\<close> is the payload returned from the cache, \<open>None\<close> means a request is in flight.
\<close>

definition load_start :: "string \<Rightarrow> int \<Rightarrow> 'p world \<Rightarrow> 'p option \<times> 'p world" where
  "load_start url now w =
     (case Map_get (CACHE w) url of
        Some cached \<Rightarrow>
          if now - timestamp cached < CACHE_DURATION then
            (Some (data cached), w\<lparr>console := console w @ [CacheHit url]\<rparr>)
          else
            (None, w\<lparr>network := network w @ [url], console := console w @ [ApiCall url]\<rparr>)
      | None \<Rightarrow>
          (None, w\<lparr>network := network w @ [url], console := console w @ [ApiCall url]\<rparr>))"

text \<open>
  One whole call of \<open>loadMapData(url)\<close> with nothing else running in between: \<open>Inr\<close> is
  the returned payload, \<open>Inl\<close> the thrown error.
\<close>

definition loadMapData :: "string \<Rightarrow> int \<Rightarrow> 'p fetch_result \<Rightarrow> int \<Rightarrow> 'p world \<Rightarrow> (js_error + 'p) \<times> 'p world" where
  "loadMapData url now net now' w =
     (case load_start url now w of
        (Some d, w') \<Rightarrow> (Inr d, w')
      | (None, w') \<Rightarrow> load_finish url net now' w')"

subsection \<open>The periodic sweep\<close>

text \<open>The second argument of \<open>setInterval\<close>, in milliseconds.\<close>

definition SWEEP_INTERVAL :: int where
  "SWEEP_INTERVAL = 60000"

text \<open>
  The \<open>for\<close> loop over \<open>CACHE.entries()\<close> (lines 140 to 145): the entries still to visit,
  the cache and \<open>cleanedCount\<close>. Deleting the entry being visited does not disturb the
  iteration over the others.
\<close>

fun sweep_loop :: "int \<Rightarrow> 'p cache \<Rightarrow> 'p cache \<Rightarrow> nat \<Rightarrow> 'p cache \<times> nat" where
  "sweep_loop now [] c cleanedCount = (c, cleanedCount)"
| "sweep_loop now ((key, val) # entries) c cleanedCount =
     (if now - timestamp val > CACHE_DURATION
      then sweep_loop now entries (Map_delete c key) (cleanedCount + 1)
      else sweep_loop now entries c cleanedCount)"

definition sweep :: "int \<Rightarrow> 'p world \<Rightarrow> 'p world" where
  "sweep now w =
     (case sweep_loop now (CACHE w) (CACHE w) 0 of
        (c, cleanedCount) \<Rightarrow>
          if cleanedCount > 0
          then w\<lparr>CACHE := c, console := console w @ [CacheCleaned cleanedCount]\<rparr>
          else w\<lparr>CACHE := c\<rparr>)"

subsection \<open>The states the cache can be in\<close>

text \<open>
  Calls of \<open>loadMapData\<close> are not serialised: between the request of one call and its
  completion, other calls may start or complete and the sweep may run. Every state the
  module can be in is built from the empty cache by these steps, in some order: a call
  starts, a request that was made completes with some answer, the sweep runs at some time.
\<close>

inductive reachable :: "'p world \<Rightarrow> bool" where
  r_init: "reachable initial_world"
| r_start: "reachable w \<Longrightarrow> reachable (snd (load_start url now w))"
| r_finish: "reachable w \<Longrightarrow> url \<in> set (network w) \<Longrightarrow> reachable (snd (load_finish url net now' w))"
| r_sweep: "reachable w \<Longrightarrow> reachable (sweep now w)"

subsection \<open>The four reported kinds of failure\<close>

text \<open>
  The specification names four kinds of failure; in the code a kind is the message of
  the \<open>Error\<close> that \<open>loadMapData\<close> throws.
\<close>

datatype error_kind = TimeoutError | CancelledError | ServerError | ConnectionError

fun has_kind :: "error_kind \<Rightarrow> js_error \<Rightarrow> bool" where
  "has_kind TimeoutError e = (message e = timeout_message)"
| "has_kind CancelledError e = (message e = cancelled_message)"
| "has_kind ServerError e = prefix ''Error del servidor: '' (message e)"
| "has_kind ConnectionError e = (message e = connection_message)"

section \<open>The view state controller (src/App.jsx)\<close>

subsection \<open>Data\<close>

text \<open>
  An antenna record is a GeoJSON feature. The controller reads only its \<open>properties\<close>
  (which may be missing) and of these only \<open>operador\<close> and \<open>tecnologia\<close> (each of which
  may be missing); whatever else a feature carries lives in the extension of the record.
\<close>

record antena_properties =
  prop_operador :: "string option"
  prop_tecnologia :: "string option"

record antena =
  properties :: "antena_properties option"

text \<open>The viewport the map reports: a bounding box and a zoom level, both numbers.\<close>

record 'n viewport =
  bbox :: "'n list"
  zoom :: 'n

text \<open>The \<open>filters\<close> state; the empty string is the empty selection.\<close>

record 'n filters =
  operador :: string
  tecnologia :: string
  viewport :: "'n viewport option"

text \<open>
  A parsed response body, as far as the controller reads it: \<open>null\<close>, or a value whose
  \<open>features\<close> member is a list of antenna records (\<open>Some\<close>) or is missing or falsy
  (\<open>None\<close>).
\<close>

datatype payload = JsonNull | JsonValue "antena list option"

record 'n app_state =
  antenas :: "antena list"
  stats :: "payload option"
  loading :: bool
  error :: "string option"
  filters :: "'n filters"

text \<open>
  What the controller takes from its platform: the base address of the API
  (\<open>import.meta.env.VITE_API_URL\<close> or the default), how a number prints, and how
  \<open>URLSearchParams\<close> encodes a list of parameters.
\<close>

record 'n platform =
  API_BASE :: string
  Number_toString :: "'n \<Rightarrow> string"
  URLSearchParams_toString :: "(string \<times> string) list \<Rightarrow> string"

text \<open>\<open>Array.prototype.join\<close> on an array of strings.\<close>

fun join :: "string \<Rightarrow> string list \<Rightarrow> string" where
  "join sep [] = []"
| "join sep [x] = x"
| "join sep (x # y # ys) = x @ sep @ join sep (y # ys)"

subsection \<open>\<open>filteredAntenas\<close>\<close>

definition filteredAntenas :: "('a antena_scheme) list \<Rightarrow> ('n, 'b) filters_scheme \<Rightarrow> ('a antena_scheme) list" where
  "filteredAntenas as fs =
     filter (\<lambda>antena.
        let props = (case properties antena of
                       None \<Rightarrow> \<lparr>prop_operador = None, prop_tecnologia = None\<rparr>
                     | Some p \<Rightarrow> p)
        in if operador fs \<noteq> [] \<and> prop_operador props \<noteq> Some (operador fs) then False
           else if tecnologia fs \<noteq> [] \<and> prop_tecnologia props \<noteq> Some (tecnologia fs) then False
           else True) as"

text \<open>
  The specification's reading of the filter: an attribute of a record, and a record
  matching a selection.
\<close>

definition attribute :: "(antena_properties \<Rightarrow> string option) \<Rightarrow> 'a antena_scheme \<Rightarrow> string option" where
  "attribute field a = (case properties a of None \<Rightarrow> None | Some p \<Rightarrow> field p)"

definition matches_selection :: "string \<Rightarrow> string option \<Rightarrow> bool" where
  "matches_selection selection attr = (selection = [] \<or> attr = Some selection)"

subsection \<open>\<open>handleViewportChange\<close>\<close>

text \<open>
  The locator the callback requests (lines 161 to 172), for the filters it has captured:
  clusters up to zoom level 10 and single antennas above, the bounding box and the zoom
  level as parameters, and one parameter per active filter.
\<close>

definition viewport_locator ::
  "'n::{linorder,numeral} platform \<Rightarrow> ('n, 'b) filters_scheme \<Rightarrow> 'n viewport \<Rightarrow> string" where
  "viewport_locator pf fs vp =
     (let endpoint = (if zoom vp \<le> 10 then ''/map/clusters'' else ''/map/antenas'');
          params = [(''bbox'', join '','' (map (Number_toString pf) (bbox vp))),
                    (''zoom'', Number_toString pf (zoom vp))];
          params = (if operador fs \<noteq> [] then params @ [(''operador'', operador fs)] else params);
          params = (if tecnologia fs \<noteq> [] then params @ [(''tecnologia'', tecnologia fs)] else params)
      in API_BASE pf @ endpoint @ ''?'' @ URLSearchParams_toString pf params)"

text \<open>
  The \<open>try\<close> block (lines 152 to 173): the list handed to \<open>setAntenas\<close>, or the error
  thrown. Reading \<open>features\<close> of \<open>null\<close> throws a \<open>TypeError\<close>.
\<close>

definition viewport_try ::
  "'n::{linorder,numeral} platform \<Rightarrow> ('n, 'b) filters_scheme \<Rightarrow> 'n viewport \<Rightarrow> int \<Rightarrow> payload fetch_result \<Rightarrow> int
     \<Rightarrow> payload world \<Rightarrow> (js_error + antena list) \<times> payload world" where
  "viewport_try pf fs vp now net now' w =
     (case loadMapData (viewport_locator pf fs vp) now net now' w of
        (Inl err, w') \<Rightarrow> (Inl err, w')
      | (Inr JsonNull, w') \<Rightarrow>
          (Inl \<lparr>name = ''TypeError'', message = ''Cannot read properties of null (reading 'features')''\<rparr>, w')
      | (Inr (JsonValue features), w') \<Rightarrow>
          (Inr (case features of None \<Rightarrow> [] | Some l \<Rightarrow> l), w'))"

text \<open>
  The callback: nothing happens without a viewport; the handler of the \<open>try\<close> block
  only logs.
\<close>

definition handleViewportChange ::
  "'n::{linorder,numeral} platform \<Rightarrow> ('n, 'b) filters_scheme \<Rightarrow> 'n viewport option \<Rightarrow> int \<Rightarrow> payload fetch_result \<Rightarrow> int
     \<Rightarrow> 'n app_state \<times> payload world \<Rightarrow> 'n app_state \<times> payload world" where
  "handleViewportChange pf fs vp now net now' sw =
     (case sw of (st, w) \<Rightarrow>
        (case vp of
           None \<Rightarrow> (st, w)
         | Some v \<Rightarrow>
             (case viewport_try pf fs v now net now' w of
                (Inr l, w') \<Rightarrow> (st\<lparr>antenas := l\<rparr>, w')
              | (Inl err, w') \<Rightarrow> (st, w'\<lparr>console := console w' @ [ViewportError err]\<rparr>))))"

section \<open>Facts about the model\<close>

subsection \<open>Strings and the \<open>Map\<close>\<close>

lemma String_includes_iff: "String_includes s p \<longleftrightarrow> (\<exists>a b. s = a @ p @ b)"
proof (induction s)
  case Nil
  then show ?case by auto
next
  case (Cons c cs)
  show ?case
  proof
    assume "String_includes (c # cs) p"
    then consider "prefix p (c # cs)" | "String_includes cs p" by auto
    then show "\<exists>a b. c # cs = a @ p @ b"
    proof cases
      case 1
      then obtain b where "c # cs = p @ b" by (auto simp: prefix_def)
      then have "c # cs = [] @ p @ b" by simp
      then show ?thesis by blast
    next
      case 2
      with Cons.IH obtain a b where "cs = a @ p @ b" by blast
      then have "c # cs = (c # a) @ p @ b" by simp
      then show ?thesis by blast
    qed
  next
    assume "\<exists>a b. c # cs = a @ p @ b"
    then obtain a b where ab: "c # cs = a @ p @ b" by blast
    show "String_includes (c # cs) p"
    proof (cases a)
      case Nil
      with ab have "prefix p (c # cs)" by (simp add: prefix_def)
      then show ?thesis by simp
    next
      case (Cons x xs)
      with ab have "cs = xs @ p @ b" by simp
      with Cons.IH have "String_includes cs p" by blast
      then show ?thesis by simp
    qed
  qed
qed

lemma Map_get_Map_set: "Map_get (Map_set m k v) k' = (if k' = k then Some v else Map_get m k')"
  by (induction m) auto

lemma fst_set_Map_set: "fst ` set (Map_set m k v) = insert k (fst ` set m)"
proof (induction m)
  case Nil
  then show ?case by simp
next
  case (Cons p m)
  obtain k' v' where p: "p = (k', v')" by (cases p)
  from Cons show ?case by (cases "k' = k") (simp_all add: p insert_commute)
qed

lemma Map_inv_Map_set: "Map_inv m \<Longrightarrow> Map_inv (Map_set m k v)"
  unfolding Map_inv_def
proof (induction m)
  case Nil
  then show ?case by simp
next
  case (Cons p m)
  obtain k' v' where p: "p = (k', v')" by (cases p)
  from Cons have "k' \<notin> fst ` set m" and "distinct (map fst (Map_set m k v))" by (auto simp: p)
  then show ?case using Cons.prems
    by (cases "k' = k") (simp_all add: p fst_set_Map_set)
qed

lemma Map_delete_filter: "Map_delete m k = filter (\<lambda>kv. fst kv \<noteq> k) m"
  by (induction m) auto

lemma Map_get_None: "k \<notin> fst ` set m \<Longrightarrow> Map_get m k = None"
  by (induction m) auto

lemma Map_get_filter:
  "Map_inv m \<Longrightarrow>
   Map_get (filter (\<lambda>kv. P (snd kv)) m) k =
     (case Map_get m k of None \<Rightarrow> None | Some v \<Rightarrow> if P v then Some v else None)"
  unfolding Map_inv_def
proof (induction m)
  case Nil
  then show ?case by simp
next
  case (Cons p m)
  obtain k' v' where p: "p = (k', v')" by (cases p)
  show ?case
  proof (cases "k' = k")
    case True
    with Cons.prems have "k \<notin> fst ` set (filter (\<lambda>kv. P (snd kv)) m)" by (auto simp: p)
    then have "Map_get (filter (\<lambda>kv. P (snd kv)) m) k = None" by (rule Map_get_None)
    with True show ?thesis by (simp add: p)
  next
    case False
    with Cons show ?thesis by (simp add: p)
  qed
qed

lemma sweep_loop_cache:
  "fst (sweep_loop now es c n) =
     filter (\<lambda>kv. fst kv \<notin> fst ` {e \<in> set es. now - timestamp (snd e) > CACHE_DURATION}) c"
proof (induction es arbitrary: c n)
  case Nil
  then show ?case by simp
next
  case (Cons e es)
  obtain k v where e: "e = (k, v)" by (cases e)
  have "{x \<in> set (e # es). now - timestamp (snd x) > CACHE_DURATION} =
          (if now - timestamp v > CACHE_DURATION then {(k, v)} else {})
            \<union> {x \<in> set es. now - timestamp (snd x) > CACHE_DURATION}"
    by (auto simp: e)
  then show ?case
    by (auto simp: e Cons.IH Map_delete_filter intro!: filter_cong)
qed

lemma Map_inv_unique: "Map_inv c \<Longrightarrow> (k, v) \<in> set c \<Longrightarrow> (k, v') \<in> set c \<Longrightarrow> v = v'"
  unfolding Map_inv_def
proof (induction c)
  case Nil
  then show ?case by simp
next
  case (Cons p c)
  obtain k0 v0 where p: "p = (k0, v0)" by (cases p)
  from Cons.prems have notin: "\<And>x. (k0, x) \<notin> set c" by (force simp: p)
  from Cons show ?case by (auto simp: p notin)
qed

lemma sweep_loop_self:
  assumes "Map_inv c"
  shows "fst (sweep_loop now c c n) = filter (\<lambda>kv. \<not> now - timestamp (snd kv) > CACHE_DURATION) c"
proof -
  let ?old = "{e \<in> set c. now - timestamp (snd e) > CACHE_DURATION}"
  have "(fst kv \<notin> fst ` ?old) = (\<not> now - timestamp (snd kv) > CACHE_DURATION)"
    if kv: "kv \<in> set c" for kv
  proof (cases "now - timestamp (snd kv) > CACHE_DURATION")
    case True
    with kv have "kv \<in> ?old" by simp
    then have "fst kv \<in> fst ` ?old" by (rule imageI)
    with True show ?thesis by simp
  next
    case False
    have "fst kv \<notin> fst ` ?old"
    proof
      assume "fst kv \<in> fst ` ?old"
      then obtain e where e: "e \<in> ?old" and eq: "fst kv = fst e" by (rule imageE)
      from e have "(fst kv, snd e) \<in> set c" by (simp add: eq)
      moreover from kv have "(fst kv, snd kv) \<in> set c" by simp
      ultimately have "snd e = snd kv" by (rule Map_inv_unique [OF assms])
      with e False show False by simp
    qed
    with False show ?thesis by simp
  qed
  then have "filter (\<lambda>kv. fst kv \<notin> fst ` ?old) c
           = filter (\<lambda>kv. \<not> now - timestamp (snd kv) > CACHE_DURATION) c"
    by (rule filter_cong [OF refl])
  then show ?thesis by (simp only: sweep_loop_cache)
qed

subsection \<open>The steps of \<open>loadMapData\<close> and of the sweep\<close>

lemma load_start_hit:
  "Map_get (CACHE w) url = Some cached \<Longrightarrow> now - timestamp cached < CACHE_DURATION \<Longrightarrow>
   load_start url now w = (Some (data cached), w\<lparr>console := console w @ [CacheHit url]\<rparr>)"
  by (simp add: load_start_def)

lemma load_start_Some:
  "load_start url now w = (Some d, w') \<Longrightarrow>
   \<exists>cached. Map_get (CACHE w) url = Some cached \<and> data cached = d
     \<and> now - timestamp cached < CACHE_DURATION \<and> w' = w\<lparr>console := console w @ [CacheHit url]\<rparr>"
  by (auto simp: load_start_def split: option.splits if_splits)

lemma load_start_None:
  "load_start url now w = (None, w') \<Longrightarrow>
   w' = w\<lparr>network := network w @ [url], console := console w @ [ApiCall url]\<rparr>"
  by (auto simp: load_start_def split: option.splits if_splits)

lemma CACHE_load_start: "CACHE (snd (load_start url now w)) = CACHE w"
  by (simp add: load_start_def split: option.splits)

lemma load_try_Inl: "load_try url net now' w = (Inl e, w') \<Longrightarrow> w' = w"
  by (auto simp: load_try_def split: fetch_result.splits if_splits sum.splits)

lemma load_try_Inr:
  "load_try url net now' w = (Inr d, w') \<Longrightarrow>
   w' = w\<lparr>CACHE := Map_set (CACHE w) url \<lparr>data = d, timestamp = now'\<rparr>,
          console := console w @ [ApiSuccess url]\<rparr>"
  by (auto simp: load_try_def split: fetch_result.splits if_splits sum.splits)

lemma load_finish_Inl:
  "load_finish url net now' w = (Inl e, w') \<Longrightarrow>
   \<exists>err. load_try url net now' w = (Inl err, w) \<and> e = load_catch err
     \<and> w' = w\<lparr>console := console w @ [ApiError url err]\<rparr>"
  by (auto simp: load_finish_def split: prod.splits sum.splits dest: load_try_Inl)

lemma load_finish_Inr:
  "load_finish url net now' w = (Inr d, w') \<Longrightarrow>
   w' = w\<lparr>CACHE := Map_set (CACHE w) url \<lparr>data = d, timestamp = now'\<rparr>,
          console := console w @ [ApiSuccess url]\<rparr>"
  by (auto simp: load_finish_def split: prod.splits sum.splits dest: load_try_Inr)

lemma network_load_finish: "network (snd (load_finish url net now' w)) = network w"
proof (cases "load_finish url net now' w")
  case (Pair res w')
  then show ?thesis by (cases res) (auto dest: load_finish_Inl load_finish_Inr)
qed

lemma Map_inv_load_finish:
  "Map_inv (CACHE w) \<Longrightarrow> Map_inv (CACHE (snd (load_finish url net now' w)))"
proof (cases "load_finish url net now' w")
  case (Pair res w')
  assume "Map_inv (CACHE w)"
  with Pair show ?thesis
    by (cases res) (auto dest!: load_finish_Inl load_finish_Inr intro: Map_inv_Map_set)
qed

lemma CACHE_sweep: "CACHE (sweep now w) = fst (sweep_loop now (CACHE w) (CACHE w) 0)"
  by (simp add: sweep_def split: prod.splits)

lemma Map_inv_sweep: "Map_inv (CACHE w) \<Longrightarrow> Map_inv (CACHE (sweep now w))"
  by (simp add: CACHE_sweep sweep_loop_cache Map_inv_def distinct_map_filter)

lemma reachable_Map_inv: "reachable w \<Longrightarrow> Map_inv (CACHE w)"
proof (induction rule: reachable.induct)
  case r_init
  show ?case by (simp add: initial_world_def Map_inv_def)
next
  case (r_start w url now)
  then show ?case by (simp add: CACHE_load_start)
next
  case (r_finish w url net now')
  then show ?case by (simp add: Map_inv_load_finish)
next
  case (r_sweep w now)
  then show ?case by (simp add: Map_inv_sweep)
qed

lemma reachable_loadMapData:
  assumes "reachable w"
  shows "reachable (snd (loadMapData url now net now' w))"
proof (cases "load_start url now w")
  case (Pair hit w1)
  have r1: "reachable w1" using reachable.r_start [OF assms, of url now] Pair by simp
  show ?thesis
  proof (cases hit)
    case None
    with Pair have "url \<in> set (network w1)" by (auto dest: load_start_None)
    with r1 have "reachable (snd (load_finish url net now' w1))" by (rule reachable.r_finish)
    with Pair None show ?thesis by (simp add: loadMapData_def)
  next
    case (Some d)
    with Pair r1 show ?thesis by (simp add: loadMapData_def)
  qed
qed


lemma loadMapData_Inl:
  assumes "loadMapData url now net now' w = (Inl e, w')"
  shows "\<exists>err. load_try url net now'
                  (w\<lparr>network := network w @ [url], console := console w @ [ApiCall url]\<rparr>)
               = (Inl err, w\<lparr>network := network w @ [url], console := console w @ [ApiCall url]\<rparr>)
           \<and> e = load_catch err
           \<and> w' = w\<lparr>network := network w @ [url],
                     console := console w @ [ApiCall url, ApiError url err]\<rparr>"
proof (cases "load_start url now w")
  case (Pair hit w0)
  show ?thesis
  proof (cases hit)
    case None
    with Pair have w0: "w0 = w\<lparr>network := network w @ [url], console := console w @ [ApiCall url]\<rparr>"
      by (auto dest: load_start_None)
    from Pair None assms have "load_finish url net now' w0 = (Inl e, w')" by (simp add: loadMapData_def)
    then obtain err where "load_try url net now' w0 = (Inl err, w0)" "e = load_catch err"
      "w' = w0\<lparr>console := console w0 @ [ApiError url err]\<rparr>"
      by (blast dest: load_finish_Inl)
    then show ?thesis by (auto simp: w0)
  next
    case (Some x)
    with Pair assms show ?thesis by (simp add: loadMapData_def)
  qed
qed

lemma Map_get_sweep:
  assumes "Map_inv (CACHE w)"
  shows "Map_get (CACHE (sweep now w)) url =
           (case Map_get (CACHE w) url of
              None \<Rightarrow> None
            | Some v \<Rightarrow> if now - timestamp v > CACHE_DURATION then None else Some v)"
proof -
  have "Map_get (filter (\<lambda>kv. \<not> now - timestamp (snd kv) > CACHE_DURATION) (CACHE w)) url =
          (case Map_get (CACHE w) url of
             None \<Rightarrow> None
           | Some v \<Rightarrow> if \<not> now - timestamp v > CACHE_DURATION then Some v else None)"
    using assms by (rule Map_get_filter)
  then show ?thesis
    by (simp add: CACHE_sweep sweep_loop_self [OF assms] split: option.splits)
qed

lemma map_fst_Map_set:
  "Map_get m k = Some v' \<Longrightarrow> map fst (Map_set m k v) = map fst m"
  by (induction m) (auto split: if_splits)

lemma loadMapData_miss:
  "fst (load_start url now w) = None \<Longrightarrow>
   loadMapData url now net now' w =
     load_finish url net now' (w\<lparr>network := network w @ [url], console := console w @ [ApiCall url]\<rparr>)"
  by (cases "load_start url now w") (auto simp: loadMapData_def dest: load_start_None)

lemma load_start_stale:
  "Map_get (CACHE w) url = Some cached \<Longrightarrow> \<not> now - timestamp cached < CACHE_DURATION \<Longrightarrow>
   fst (load_start url now w) = None"
  by (simp add: load_start_def)

lemma messages_distinct:
  "timeout_message \<noteq> cancelled_message" "cancelled_message \<noteq> timeout_message"
  "timeout_message \<noteq> connection_message" "connection_message \<noteq> timeout_message"
  "cancelled_message \<noteq> connection_message" "connection_message \<noteq> cancelled_message"
  "server_message m \<noteq> timeout_message"
  "server_message m \<noteq> cancelled_message"
  "server_message m \<noteq> connection_message"
  by (simp_all add: timeout_message_def cancelled_message_def connection_message_def
      server_message_def)

lemma messages_prefix:
  "\<not> prefix ''Error del servidor: '' timeout_message"
  "\<not> prefix ''Error del servidor: '' cancelled_message"
  "\<not> prefix ''Error del servidor: '' connection_message"
  "prefix ''Error del servidor: '' (server_message m)"
  by (simp_all add: timeout_message_def cancelled_message_def connection_message_def
      server_message_def)

lemma has_kind_load_catch:
  "has_kind k (load_catch err) \<longleftrightarrow>
     k = (if name err = ''TimeoutError'' then TimeoutError
          else if name err = ''AbortError'' then CancelledError
          else if String_includes (message err) ''HTTP'' then ServerError
          else ConnectionError)"
  by (cases k) (simp_all add: load_catch_def Error_def messages_distinct messages_prefix)

lemma has_kind_load_catch_unique: "\<exists>!k. has_kind k (load_catch err)"
  by (simp add: has_kind_load_catch)

lemma loadMapData_rejected:
  "fst (load_start url now w) = None \<Longrightarrow>
   fst (loadMapData url now (Rejected err) now' w) = Inl (load_catch err)"
  by (simp add: loadMapData_miss load_finish_def load_try_def)

lemma loadMapData_not_ok:
  "fst (load_start url now w) = None \<Longrightarrow> \<not> ok r \<Longrightarrow>
   fst (loadMapData url now (Resolved r) now' w)
     = Inl (load_catch (Error (''HTTP '' @ String_nat (status r) @ '': '' @ statusText r)))"
  by (simp add: loadMapData_miss load_finish_def load_try_def)

lemma loadMapData_parse_failure:
  "fst (load_start url now w) = None \<Longrightarrow> ok r \<Longrightarrow> json r = Inl e \<Longrightarrow>
   fst (loadMapData url now (Resolved r) now' w) = Inl (load_catch e)"
  by (simp add: loadMapData_miss load_finish_def load_try_def)

lemma load_catch_http:
  "load_catch (Error (''HTTP '' @ String_nat n @ rest))
     = Error (server_message (''HTTP '' @ String_nat n @ rest))"
  by (simp add: load_catch_def Error_def)

lemma server_message_includes_status:
  "String_includes (server_message (''HTTP '' @ String_nat n @ rest)) (String_nat n)"
proof -
  have "server_message (''HTTP '' @ String_nat n @ rest)
          = ''Error del servidor: HTTP '' @ String_nat n @ rest"
    by (simp add: server_message_def)
  then show ?thesis unfolding String_includes_iff by blast
qed

lemma filteredAntenas_keeps:
  "(let props = (case properties a of
                  None \<Rightarrow> \<lparr>prop_operador = None, prop_tecnologia = None\<rparr>
                | Some p \<Rightarrow> p)
    in if operador fs \<noteq> [] \<and> prop_operador props \<noteq> Some (operador fs) then False
       else if tecnologia fs \<noteq> [] \<and> prop_tecnologia props \<noteq> Some (tecnologia fs) then False
       else True)
   = (matches_selection (operador fs) (attribute prop_operador a)
      \<and> matches_selection (tecnologia fs) (attribute prop_tecnologia a))"
  by (cases "properties a") (auto simp: matches_selection_def attribute_def Let_def)

lemma viewport_try_load_failure:
  "loadMapData (viewport_locator pf fs v) now net now' w = (Inl e, w1) \<Longrightarrow>
   viewport_try pf fs v now net now' w = (Inl e, w1)"
  by (simp add: viewport_try_def)

text \<open>
  How the failures of a call are reported. Every error that \<open>loadMapData\<close> throws has
  exactly one of the four kinds. When a request is made: a rejection named
  \<open>TimeoutError\<close> is reported with the timeout message; one named \<open>AbortError\<close> with the
  cancellation message; a response whose status is outside 200 to 299 with the server
  message, which contains the status; a rejection of any other name whose message does not
  contain \<open>HTTP\<close> with the connection message.
\<close>

lemma loadMapData_failure_kinds:
  "(\<forall>net e. fst (loadMapData url now net now' w) = Inl e \<longrightarrow> (\<exists>!k. has_kind k e))
   \<and> (fst (load_start url now w) = None \<longrightarrow>
        (\<forall>err. name err = ''TimeoutError'' \<longrightarrow>
           fst (loadMapData url now (Rejected err) now' w) = Inl (Error timeout_message))
      \<and> (\<forall>err. name err \<noteq> ''TimeoutError'' \<and> name err = ''AbortError'' \<longrightarrow>
           fst (loadMapData url now (Rejected err) now' w) = Inl (Error cancelled_message))
      \<and> (\<forall>r. \<not> ok r \<longrightarrow>
           fst (loadMapData url now (Resolved r) now' w)
             = Inl (Error (server_message (''HTTP '' @ String_nat (status r) @ '': '' @ statusText r)))
           \<and> String_includes (server_message (''HTTP '' @ String_nat (status r) @ '': '' @ statusText r))
                (String_nat (status r)))
      \<and> (\<forall>err. name err \<noteq> ''TimeoutError'' \<and> name err \<noteq> ''AbortError''
               \<and> \<not> String_includes (message err) ''HTTP'' \<longrightarrow>
           fst (loadMapData url now (Rejected err) now' w) = Inl (Error connection_message)))"
proof (intro conjI allI impI)
  fix net e
  assume "fst (loadMapData url now net now' w) = Inl e"
  then have "loadMapData url now net now' w = (Inl e, snd (loadMapData url now net now' w))"
    by (cases "loadMapData url now net now' w") simp
  then obtain err where "e = load_catch err" by (blast dest: loadMapData_Inl)
  then show "\<exists>!k. has_kind k e" by (simp add: has_kind_load_catch_unique)
next
  fix err :: js_error
  assume "fst (load_start url now w) = None" and "name err = ''TimeoutError''"
  then show "fst (loadMapData url now (Rejected err) now' w) = Inl (Error timeout_message)"
    by (simp add: loadMapData_rejected load_catch_def)
next
  fix err :: js_error
  assume "fst (load_start url now w) = None"
    and "name err \<noteq> ''TimeoutError'' \<and> name err = ''AbortError''"
  then show "fst (loadMapData url now (Rejected err) now' w) = Inl (Error cancelled_message)"
    by (simp add: loadMapData_rejected load_catch_def)
next
  fix r :: "'a response"
  assume "fst (load_start url now w) = None" and "\<not> ok r"
  then show "fst (loadMapData url now (Resolved r) now' w)
             = Inl (Error (server_message (''HTTP '' @ String_nat (status r) @ '': '' @ statusText r)))"
    using loadMapData_not_ok [of url now w r now'] load_catch_http [of "status r" "'': '' @ statusText r"]
    by simp
next
  fix r :: "'a response"
  show "String_includes (server_message (''HTTP '' @ String_nat (status r) @ '': '' @ statusText r))
                (String_nat (status r))"
    by (rule server_message_includes_status)
next
  fix err :: js_error
  assume "fst (load_start url now w) = None"
    and "name err \<noteq> ''TimeoutError'' \<and> name err \<noteq> ''AbortError''
               \<and> \<not> String_includes (message err) ''HTTP''"
  then show "fst (loadMapData url now (Rejected err) now' w) = Inl (Error connection_message)"
    by (simp add: loadMapData_rejected load_catch_def)
qed

section \<open>The claims\<close>

text \<open>
  Claim C1. When the cache holds an entry for the locator whose age at the lookup is
  strictly below \<open>CACHE_DURATION\<close> (five minutes), \<open>loadMapData\<close> returns the payload of
  that entry, hands no request to \<open>fetch\<close> and leaves the cache as it was. In particular,
  when a first call has fetched the locator (one request) and returned \<open>d\<close>, a second call
  less than five minutes after the entry was stored returns the same \<open>d\<close>, and the two
  calls together have made exactly that one request.
\<close>

theorem C1_fresh_entry_is_served_from_the_cache:
  "(\<forall>cached. Map_get (CACHE w) url = Some cached \<and> now - timestamp cached < CACHE_DURATION \<longrightarrow>
      fst (loadMapData url now net now' w) = Inr (data cached)
      \<and> CACHE (snd (loadMapData url now net now' w)) = CACHE w
      \<and> network (snd (loadMapData url now net now' w)) = network w)
   \<and> (\<forall>d w1. loadMapData url t1 net1 t1' w = (Inr d, w1) \<and> network w1 = network w @ [url]
          \<and> t2 - t1' < CACHE_DURATION \<longrightarrow>
        fst (loadMapData url t2 net2 t2' w1) = Inr d
        \<and> CACHE (snd (loadMapData url t2 net2 t2' w1)) = CACHE w1
        \<and> network (snd (loadMapData url t2 net2 t2' w1)) = network w @ [url])"
proof (intro conjI allI impI)
  fix cached
  assume "Map_get (CACHE w) url = Some cached \<and> now - timestamp cached < CACHE_DURATION"
  then have hit: "load_start url now w = (Some (data cached), w\<lparr>console := console w @ [CacheHit url]\<rparr>)"
    by (simp add: load_start_hit)
  show "fst (loadMapData url now net now' w) = Inr (data cached)"
    and "CACHE (snd (loadMapData url now net now' w)) = CACHE w"
    and "network (snd (loadMapData url now net now' w)) = network w"
    by (simp_all add: loadMapData_def hit)
next
  fix d w1
  assume a: "loadMapData url t1 net1 t1' w = (Inr d, w1) \<and> network w1 = network w @ [url]
          \<and> t2 - t1' < CACHE_DURATION"
  obtain hit w0 where s: "load_start url t1 w = (hit, w0)" by (cases "load_start url t1 w")
  have "hit = None"
  proof (cases hit)
    case (Some x)
    with s a have "w1 = w0" by (simp add: loadMapData_def)
    moreover from s Some have "network w0 = network w" by (auto dest: load_start_Some)
    ultimately show ?thesis using a by simp
  qed simp
  with s a have f: "load_finish url net1 t1' w0 = (Inr d, w1)" by (simp add: loadMapData_def)
  then have "Map_get (CACHE w1) url = Some \<lparr>data = d, timestamp = t1'\<rparr>"
    by (auto dest!: load_finish_Inr simp: Map_get_Map_set)
  with a have hit2: "load_start url t2 w1 = (Some d, w1\<lparr>console := console w1 @ [CacheHit url]\<rparr>)"
    using load_start_hit [of w1 url "\<lparr>data = d, timestamp = t1'\<rparr>" t2] by simp
  show "fst (loadMapData url t2 net2 t2' w1) = Inr d"
    and "CACHE (snd (loadMapData url t2 net2 t2' w1)) = CACHE w1"
    and "network (snd (loadMapData url t2 net2 t2' w1)) = network w @ [url]"
    using a by (simp_all add: loadMapData_def hit2)
qed

theorem C1_witness:
  "fst (loadMapData ''/stats'' 1000 (Rejected (Error ''offline'')) 1001
         (snd (loadMapData ''/stats'' 0 (Resolved \<lparr>status = 200, statusText = ''OK'', json = Inr (7::nat)\<rparr>) 5
                 initial_world))) = Inr 7
   \<and> network (snd (loadMapData ''/stats'' 1000 (Rejected (Error ''offline'')) 1001
         (snd (loadMapData ''/stats'' 0 (Resolved \<lparr>status = 200, statusText = ''OK'', json = Inr (7::nat)\<rparr>) 5
                 initial_world)))) = [''/stats'']"
proof -
  let ?net = "Resolved \<lparr>status = 200, statusText = ''OK'', json = Inr (7::nat)\<rparr>"
  let ?w1 = "snd (loadMapData ''/stats'' 0 ?net 5 initial_world)"
  have first: "loadMapData ''/stats'' 0 ?net 5 initial_world = (Inr 7, ?w1)
      \<and> network ?w1 = network (initial_world :: nat world) @ [''/stats'']
      \<and> (1000::int) - 5 < CACHE_DURATION"
    by (simp add: loadMapData_def load_start_def load_finish_def load_try_def ok_def
        initial_world_def CACHE_DURATION_def)
  from C1_fresh_entry_is_served_from_the_cache
         [where w = "initial_world :: nat world" and url = "''/stats''" and ?t1.0 = 0 and ?net1.0 = ?net
            and t1' = 5 and ?t2.0 = 1000 and ?net2.0 = "Rejected (Error ''offline'')" and t2' = 1001,
          THEN conjunct2, rule_format, OF first]
  show ?thesis by (simp add: initial_world_def)
qed



text \<open>
  Claim C3. Every failure of \<open>loadMapData\<close> is to be reported as one of four kinds: a
  timeout, a cancellation, a server error for a response with a non-success status (the
  message contains the status), and a connection error for every other failure. The
  handler recognises the error of line 70 by the text \<open>HTTP\<close> in its message (line 108),
  and that test also succeeds on errors the code did not make itself. A locator that does
  not parse as a URL makes \<open>fetch\<close> reject with a \<open>TypeError\<close> whose message quotes the
  locator; when the locator contains \<open>HTTP\<close>, the failure is reported as a server error,
  not as a connection error, although no response was received. The first message below
  is the one of Node's \<open>fetch\<close>, the second the one of Chrome's.
\<close>

theorem C3_rejected_fetch_is_reported_as_server_error:
  "fst (loadMapData ''HTTP://localhost:3000:8080/map/stats'' 0
          (Rejected \<lparr>name = ''TypeError'',
                     message = ''Failed to parse URL from HTTP://localhost:3000:8080/map/stats''\<rparr>) 1
          (initial_world :: nat world))
     = Inl (Error (server_message ''Failed to parse URL from HTTP://localhost:3000:8080/map/stats''))
   \<and> has_kind ServerError
         (Error (server_message ''Failed to parse URL from HTTP://localhost:3000:8080/map/stats''))
   \<and> \<not> has_kind ConnectionError
         (Error (server_message ''Failed to parse URL from HTTP://localhost:3000:8080/map/stats''))
   \<and> fst (loadMapData ''HTTP://localhost:3000:8080/map/stats'' 0
          (Rejected \<lparr>name = ''TypeError'',
                     message = ''Failed to execute 'fetch' on 'Window': Failed to parse URL from HTTP://localhost:3000:8080/map/stats''\<rparr>) 1
          (initial_world :: nat world))
     = Inl (Error (server_message
         ''Failed to execute 'fetch' on 'Window': Failed to parse URL from HTTP://localhost:3000:8080/map/stats''))
   \<and> \<not> has_kind ConnectionError
         (Error (server_message
           ''Failed to execute 'fetch' on 'Window': Failed to parse URL from HTTP://localhost:3000:8080/map/stats''))"
  by (simp add: loadMapData_def load_start_def load_finish_def load_try_def load_catch_def
      initial_world_def Error_def server_message_def connection_message_def)

text \<open>
  Claim C4. A call of \<open>loadMapData\<close> that fails, whatever the failure (the request
  rejected by a timeout, an abort or a network failure, a status outside 200 to 299, a body
  that does not parse), leaves the cache exactly as it was, a stale entry of the locator
  included.
\<close>

theorem C4_failed_call_leaves_cache_unchanged:
  "loadMapData url now net now' w = (Inl e, w') \<Longrightarrow> CACHE w' = CACHE w"
  by (auto dest: loadMapData_Inl)

theorem C4_witness:
  "loadMapData ''/map/stats'' 400000
      (Resolved \<lparr>status = 200, statusText = ''OK'',
                 json = Inl \<lparr>name = ''SyntaxError'', message = ''Unexpected end of JSON input''\<rparr>\<rparr>) 400001
      \<lparr>CACHE = [(''/map/stats'', \<lparr>data = (1::nat), timestamp = 0\<rparr>)], network = [''/map/stats''], console = []\<rparr>
   = (Inl (Error connection_message),
      \<lparr>CACHE = [(''/map/stats'', \<lparr>data = 1, timestamp = 0\<rparr>)],
       network = [''/map/stats'', ''/map/stats''],
       console = [ApiCall ''/map/stats'',
                  ApiError ''/map/stats'' \<lparr>name = ''SyntaxError'', message = ''Unexpected end of JSON input''\<rparr>]\<rparr>)
   \<and> CACHE \<lparr>CACHE = [(''/map/stats'', \<lparr>data = (1::nat), timestamp = 0\<rparr>)],
       network = [''/map/stats'', ''/map/stats''],
       console = [ApiCall ''/map/stats'',
                  ApiError ''/map/stats'' \<lparr>name = ''SyntaxError'', message = ''Unexpected end of JSON input''\<rparr>]\<rparr>
     = [(''/map/stats'', \<lparr>data = 1, timestamp = 0\<rparr>)]"
proof -
  let ?w = "\<lparr>CACHE = [(''/map/stats'', \<lparr>data = (1::nat), timestamp = 0\<rparr>)], network = [''/map/stats''], console = []\<rparr>"
  let ?w' = "\<lparr>CACHE = [(''/map/stats'', \<lparr>data = (1::nat), timestamp = 0\<rparr>)],
       network = [''/map/stats'', ''/map/stats''],
       console = [ApiCall ''/map/stats'',
                  ApiError ''/map/stats'' \<lparr>name = ''SyntaxError'', message = ''Unexpected end of JSON input''\<rparr>]\<rparr>"
  have run: "loadMapData ''/map/stats'' 400000
      (Resolved \<lparr>status = 200, statusText = ''OK'',
                 json = Inl \<lparr>name = ''SyntaxError'', message = ''Unexpected end of JSON input''\<rparr>\<rparr>) 400001 ?w
     = (Inl (Error connection_message), ?w')"
    by (simp add: loadMapData_def load_start_def load_finish_def load_try_def load_catch_def ok_def
        CACHE_DURATION_def)
  from C4_failed_call_leaves_cache_unchanged [OF run] run show ?thesis by simp
qed

text \<open>
  Claim C5. In every reachable state, the sweep at time \<open>now\<close> keeps exactly the entries
  whose age is at most \<open>CACHE_DURATION\<close>, in their order and unmodified: an entry that
  was present is absent afterwards if and only if \<open>now - timestamp > CACHE_DURATION\<close>, an
  entry still present is the entry that was there, no entry appears, and no request is
  made. The sweep is scheduled with an interval of 60 seconds.
\<close>

theorem C5_sweep_removes_exactly_the_expired_entries:
  assumes "reachable w"
  shows "CACHE (sweep now w) = filter (\<lambda>(key, val). \<not> now - timestamp val > CACHE_DURATION) (CACHE w)
       \<and> (\<forall>url v. Map_get (CACHE w) url = Some v \<longrightarrow>
             (Map_get (CACHE (sweep now w)) url = None \<longleftrightarrow> now - timestamp v > CACHE_DURATION)
           \<and> (Map_get (CACHE (sweep now w)) url \<noteq> None \<longrightarrow> Map_get (CACHE (sweep now w)) url = Some v))
       \<and> (\<forall>url. Map_get (CACHE w) url = None \<longrightarrow> Map_get (CACHE (sweep now w)) url = None)
       \<and> network (sweep now w) = network w
       \<and> SWEEP_INTERVAL = 60 * 1000"
proof -
  from assms have inv: "Map_inv (CACHE w)" by (rule reachable_Map_inv)
  have "(\<lambda>(key, val). \<not> now - timestamp val > CACHE_DURATION)
          = (\<lambda>kv :: string \<times> 'a cache_entry. \<not> now - timestamp (snd kv) > CACHE_DURATION)"
    by (simp add: fun_eq_iff)
  then have 1: "CACHE (sweep now w) = filter (\<lambda>(key, val). \<not> now - timestamp val > CACHE_DURATION) (CACHE w)"
    by (simp add: CACHE_sweep sweep_loop_self [OF inv])
  have 2: "\<forall>url v. Map_get (CACHE w) url = Some v \<longrightarrow>
             (Map_get (CACHE (sweep now w)) url = None \<longleftrightarrow> now - timestamp v > CACHE_DURATION)
           \<and> (Map_get (CACHE (sweep now w)) url \<noteq> None \<longrightarrow> Map_get (CACHE (sweep now w)) url = Some v)"
    by (simp add: Map_get_sweep [OF inv])
  have 3: "\<forall>url. Map_get (CACHE w) url = None \<longrightarrow> Map_get (CACHE (sweep now w)) url = None"
    by (simp add: Map_get_sweep [OF inv])
  have 4: "network (sweep now w) = network w"
    by (simp add: sweep_def split: prod.splits)
  have 5: "SWEEP_INTERVAL = 60 * 1000" by (simp add: SWEEP_INTERVAL_def)
  from 1 2 3 4 5 show ?thesis by blast
qed

theorem C5_witness:
  "reachable (snd (loadMapData ''/b'' 200000 (Resolved \<lparr>status = 200, statusText = ''OK'', json = Inr (8::nat)\<rparr>) 200001
               (snd (loadMapData ''/a'' 0 (Resolved \<lparr>status = 200, statusText = ''OK'', json = Inr 7\<rparr>) 1
                  initial_world))))
   \<and> CACHE (sweep 400000
        (snd (loadMapData ''/b'' 200000 (Resolved \<lparr>status = 200, statusText = ''OK'', json = Inr (8::nat)\<rparr>) 200001
               (snd (loadMapData ''/a'' 0 (Resolved \<lparr>status = 200, statusText = ''OK'', json = Inr 7\<rparr>) 1
                  initial_world)))))
     = [(''/b'', \<lparr>data = 8, timestamp = 200001\<rparr>)]"
proof -
  let ?w = "snd (loadMapData ''/b'' 200000 (Resolved \<lparr>status = 200, statusText = ''OK'', json = Inr (8::nat)\<rparr>) 200001
               (snd (loadMapData ''/a'' 0 (Resolved \<lparr>status = 200, statusText = ''OK'', json = Inr 7\<rparr>) 1
                  initial_world)))"
  have r: "reachable ?w"
    by (intro reachable_loadMapData reachable.r_init)
  have c: "CACHE ?w = [(''/a'', \<lparr>data = 7, timestamp = 1\<rparr>), (''/b'', \<lparr>data = 8, timestamp = 200001\<rparr>)]"
    by (simp add: loadMapData_def load_start_def load_finish_def load_try_def ok_def
        initial_world_def CACHE_DURATION_def)
  from C5_sweep_removes_exactly_the_expired_entries [OF r, of 400000]
  have "CACHE (sweep 400000 ?w) = filter (\<lambda>(key, val). \<not> 400000 - timestamp val > CACHE_DURATION) (CACHE ?w)"
    by (rule conjunct1)
  with r show ?thesis by (simp add: c CACHE_DURATION_def)
qed

text \<open>
  Claim C6 says that a stale entry is removed by the lookup that finds it stale. The code
  of \<open>loadMapData\<close> never calls \<open>CACHE.delete\<close>: a lookup that finds the entry stale and
  whose request then fails leaves the entry where it was.
\<close>

theorem C6_counterexample:
  "Map_get (CACHE \<lparr>CACHE = [(''/map/stats'', \<lparr>data = (1::nat), timestamp = 0\<rparr>)],
                   network = [''/map/stats''], console = []\<rparr>) ''/map/stats''
     = Some \<lparr>data = 1, timestamp = 0\<rparr>
   \<and> \<not> (400000 - timestamp \<lparr>data = (1::nat), timestamp = 0\<rparr> < CACHE_DURATION)
   \<and> Map_get (CACHE (snd (loadMapData ''/map/stats'' 400000
                 (Rejected \<lparr>name = ''TypeError'', message = ''Failed to fetch''\<rparr>) 400001
                 \<lparr>CACHE = [(''/map/stats'', \<lparr>data = (1::nat), timestamp = 0\<rparr>)],
                  network = [''/map/stats''], console = []\<rparr>))) ''/map/stats''
     = Some \<lparr>data = 1, timestamp = 0\<rparr>"
  by (simp add: loadMapData_def load_start_def load_finish_def load_try_def CACHE_DURATION_def)

text \<open>
  Claim C6, amended. \<open>loadMapData\<close> never deletes an entry. When the lookup finds the
  entry of the locator stale, a failed call leaves the cache as it was, and a successful
  call stores a new entry (the payload fetched, the time of storing) under the same key,
  at the same place, leaving every other key alone. Only the sweep removes a stale entry,
  once its age exceeds \<open>CACHE_DURATION\<close>.
\<close>

theorem C6_stale_entry_is_overwritten_or_swept_never_deleted_by_load:
  assumes "reachable w" and "Map_get (CACHE w) url = Some cached"
    and "\<not> now - timestamp cached < CACHE_DURATION"
    and "loadMapData url now net now' w = (res, w')"
  shows "(\<forall>e. res = Inl e \<longrightarrow> CACHE w' = CACHE w)
       \<and> (\<forall>d. res = Inr d \<longrightarrow>
             Map_get (CACHE w') url = Some \<lparr>data = d, timestamp = now'\<rparr>
           \<and> map fst (CACHE w') = map fst (CACHE w)
           \<and> (\<forall>k. k \<noteq> url \<longrightarrow> Map_get (CACHE w') k = Map_get (CACHE w) k))
       \<and> (\<forall>t. t - timestamp cached > CACHE_DURATION \<longrightarrow> Map_get (CACHE (sweep t w)) url = None)"
proof (intro conjI allI impI)
  fix e assume "res = Inl e"
  with assms(4) show "CACHE w' = CACHE w" by (auto dest: loadMapData_Inl)
next
  fix d assume "res = Inr d"
  let ?w0 = "w\<lparr>network := network w @ [url], console := console w @ [ApiCall url]\<rparr>"
  from assms(2,3) have "fst (load_start url now w) = None" by (rule load_start_stale)
  then have "loadMapData url now net now' w = load_finish url net now' ?w0" by (rule loadMapData_miss)
  with assms(4) \<open>res = Inr d\<close> have "load_finish url net now' ?w0 = (Inr d, w')" by simp
  then have c: "CACHE w' = Map_set (CACHE w) url \<lparr>data = d, timestamp = now'\<rparr>"
    by (auto dest!: load_finish_Inr)
  show "Map_get (CACHE w') url = Some \<lparr>data = d, timestamp = now'\<rparr>"
    by (simp add: c Map_get_Map_set)
  show "map fst (CACHE w') = map fst (CACHE w)"
    using assms(2) by (simp add: c map_fst_Map_set)
  show "\<And>k. k \<noteq> url \<Longrightarrow> Map_get (CACHE w') k = Map_get (CACHE w) k"
    by (simp add: c Map_get_Map_set)
next
  fix t :: int assume "t - timestamp cached > CACHE_DURATION"
  moreover from assms(1) have "Map_inv (CACHE w)" by (rule reachable_Map_inv)
  ultimately show "Map_get (CACHE (sweep t w)) url = None"
    using assms(2) by (simp add: Map_get_sweep)
qed

theorem C6_witness:
  "reachable (snd (loadMapData ''/a'' 0 (Resolved \<lparr>status = 200, statusText = ''OK'', json = Inr (7::nat)\<rparr>) 1
                  initial_world))
   \<and> \<not> (400000 - timestamp \<lparr>data = 7::nat, timestamp = 1\<rparr> < CACHE_DURATION)
   \<and> Map_get (CACHE (snd (loadMapData ''/a'' 400000
          (Resolved \<lparr>status = 200, statusText = ''OK'', json = Inr 9\<rparr>) 400002
          (snd (loadMapData ''/a'' 0 (Resolved \<lparr>status = 200, statusText = ''OK'', json = Inr (7::nat)\<rparr>) 1
                  initial_world))))) ''/a'' = Some \<lparr>data = 9, timestamp = 400002\<rparr>
   \<and> Map_get (CACHE (sweep 400000
          (snd (loadMapData ''/a'' 0 (Resolved \<lparr>status = 200, statusText = ''OK'', json = Inr (7::nat)\<rparr>) 1
                  initial_world)))) ''/a'' = None"
proof -
  let ?w = "snd (loadMapData ''/a'' 0 (Resolved \<lparr>status = 200, statusText = ''OK'', json = Inr (7::nat)\<rparr>) 1
                  initial_world)"
  let ?net = "Resolved \<lparr>status = 200, statusText = ''OK'', json = Inr (9::nat)\<rparr>"
  have r: "reachable ?w"
    by (intro reachable_loadMapData reachable.r_init)
  have w: "?w = \<lparr>CACHE = [(''/a'', \<lparr>data = 7, timestamp = 1\<rparr>)], network = [''/a''],
                 console = [ApiCall ''/a'', ApiSuccess ''/a'']\<rparr>"
    by (simp add: loadMapData_def load_start_def load_finish_def load_try_def ok_def
        initial_world_def CACHE_DURATION_def)
  have g: "Map_get (CACHE ?w) ''/a'' = Some \<lparr>data = 7, timestamp = 1\<rparr>" by (simp add: w)
  have a: "\<not> (400000 - timestamp \<lparr>data = 7::nat, timestamp = 1\<rparr> < CACHE_DURATION)"
    by (simp add: CACHE_DURATION_def)
  have run: "loadMapData ''/a'' 400000 ?net 400002 ?w
               = (Inr 9, snd (loadMapData ''/a'' 400000 ?net 400002 ?w))"
    unfolding w
    by (simp add: loadMapData_def load_start_def load_finish_def load_try_def ok_def
        CACHE_DURATION_def)
  have b: "(400000::int) - timestamp \<lparr>data = 7::nat, timestamp = 1\<rparr> > CACHE_DURATION"
    by (simp add: CACHE_DURATION_def)
  from C6_stale_entry_is_overwritten_or_swept_never_deleted_by_load [OF r g a run] r a b
  show ?thesis by blast
qed

text \<open>
  Claim C7 says that a body that does not parse surfaces as an unhandled parse error of
  none of the four kinds. \<open>response.json()\<close> is awaited inside the \<open>try\<close> block, so its
  rejection reaches the same handler: a \<open>SyntaxError\<close> is reported as a connection error.
\<close>

theorem C7_counterexample:
  "ok \<lparr>status = 200, statusText = ''OK'',
       json = Inl \<lparr>name = ''SyntaxError'', message = ''Unexpected end of JSON input''\<rparr> :: js_error + nat\<rparr>
   \<and> fst (loadMapData ''/map/stats'' 0
          (Resolved \<lparr>status = 200, statusText = ''OK'',
                     json = Inl \<lparr>name = ''SyntaxError'', message = ''Unexpected end of JSON input''\<rparr>\<rparr>) 1
          (initial_world :: nat world))
     = Inl (Error connection_message)
   \<and> has_kind ConnectionError (Error connection_message)"
  by (simp add: loadMapData_def load_start_def load_finish_def load_try_def load_catch_def
      initial_world_def Error_def ok_def)

text \<open>
  Claim C7, amended. When the response has a success status and its body does not parse,
  the rejection of \<open>response.json()\<close> is handled like every other error of the call:
  the caller receives an error of exactly one of the four kinds and the cache is left as
  it was. It is a connection error whenever the parse error is named neither
  \<open>TimeoutError\<close> nor \<open>AbortError\<close> and its message does not contain \<open>HTTP\<close>.
\<close>

theorem C7_parse_failure_is_reported_by_the_same_handler:
  assumes "fst (load_start url now w) = None" and "ok r" and "json r = Inl e"
  shows "fst (loadMapData url now (Resolved r) now' w) = Inl (load_catch e)
       \<and> CACHE (snd (loadMapData url now (Resolved r) now' w)) = CACHE w
       \<and> (\<exists>!k. has_kind k (load_catch e))
       \<and> (name e \<noteq> ''TimeoutError'' \<and> name e \<noteq> ''AbortError'' \<and> \<not> String_includes (message e) ''HTTP''
            \<longrightarrow> load_catch e = Error connection_message \<and> has_kind ConnectionError (load_catch e))"
proof -
  from assms have 1: "fst (loadMapData url now (Resolved r) now' w) = Inl (load_catch e)"
    by (rule loadMapData_parse_failure)
  then have "loadMapData url now (Resolved r) now' w
               = (Inl (load_catch e), snd (loadMapData url now (Resolved r) now' w))"
    by (cases "loadMapData url now (Resolved r) now' w") simp
  then have 2: "CACHE (snd (loadMapData url now (Resolved r) now' w)) = CACHE w"
    by (auto dest: loadMapData_Inl)
  have 3: "\<exists>!k. has_kind k (load_catch e)" by (rule has_kind_load_catch_unique)
  have 4: "name e \<noteq> ''TimeoutError'' \<and> name e \<noteq> ''AbortError'' \<and> \<not> String_includes (message e) ''HTTP''
            \<longrightarrow> load_catch e = Error connection_message \<and> has_kind ConnectionError (load_catch e)"
    by (simp add: load_catch_def Error_def)
  from 1 2 3 4 show ?thesis by blast
qed

theorem C7_witness:
  "fst (load_start ''/map/stats'' 0 (initial_world :: nat world)) = None
   \<and> ok \<lparr>status = 200, statusText = ''OK'',
          json = Inl \<lparr>name = ''SyntaxError'', message = ''Unexpected end of JSON input''\<rparr> :: js_error + nat\<rparr>
   \<and> fst (loadMapData ''/map/stats'' 0
          (Resolved \<lparr>status = 200, statusText = ''OK'',
                     json = Inl \<lparr>name = ''SyntaxError'', message = ''Unexpected end of JSON input''\<rparr>\<rparr>) 1
          (initial_world :: nat world))
     = Inl (Error connection_message)"
proof -
  let ?e = "\<lparr>name = ''SyntaxError'', message = ''Unexpected end of JSON input''\<rparr>"
  let ?r = "\<lparr>status = 200, statusText = ''OK'', json = Inl ?e :: js_error + nat\<rparr>"
  have miss: "fst (load_start ''/map/stats'' 0 (initial_world :: nat world)) = None"
    by (simp add: load_start_def initial_world_def)
  have k: "ok ?r" by (simp add: ok_def)
  have j: "json ?r = Inl ?e" by simp
  have n: "name ?e \<noteq> ''TimeoutError'' \<and> name ?e \<noteq> ''AbortError'' \<and> \<not> String_includes (message ?e) ''HTTP''"
    by simp
  from C7_parse_failure_is_reported_by_the_same_handler [OF miss k j, of 1] n
  have "fst (loadMapData ''/map/stats'' 0 (Resolved ?r) 1 (initial_world :: nat world))
          = Inl (Error connection_message)"
    by simp
  with miss k show ?thesis by simp
qed

text \<open>
  Claim C8. For every list of antenna records and every filter state, \<open>filteredAntenas\<close>
  is the list of the records that match the operator selection and the technology
  selection, in their order: a record is kept if and only if each selection is empty or
  equal to the record's attribute (a missing attribute equals no selection).
\<close>

theorem C8_filtered_set_is_the_records_matching_both_selections:
  "filteredAntenas records fs
     = filter (\<lambda>a. matches_selection (operador fs) (attribute prop_operador a)
                  \<and> matches_selection (tecnologia fs) (attribute prop_tecnologia a)) records
   \<and> (\<forall>a. a \<in> set (filteredAntenas records fs) \<longleftrightarrow>
          a \<in> set records
        \<and> (operador fs = [] \<or> attribute prop_operador a = Some (operador fs))
        \<and> (tecnologia fs = [] \<or> attribute prop_tecnologia a = Some (tecnologia fs)))"
proof -
  have 1: "filteredAntenas records fs
     = filter (\<lambda>a. matches_selection (operador fs) (attribute prop_operador a)
                  \<and> matches_selection (tecnologia fs) (attribute prop_tecnologia a)) records"
    unfolding filteredAntenas_def by (simp only: filteredAntenas_keeps)
  then show ?thesis by (simp add: matches_selection_def)
qed

theorem C8_witness:
  "filteredAntenas
     [\<lparr>properties = Some \<lparr>prop_operador = Some ''Movistar'', prop_tecnologia = Some ''5G''\<rparr>\<rparr>,
      \<lparr>properties = Some \<lparr>prop_operador = Some ''Vodafone'', prop_tecnologia = Some ''5G''\<rparr>\<rparr>,
      \<lparr>properties = Some \<lparr>prop_operador = Some ''Movistar'', prop_tecnologia = Some ''4G''\<rparr>\<rparr>,
      \<lparr>properties = None\<rparr>]
     \<lparr>operador = ''Movistar'', tecnologia = [], viewport = None :: int viewport option\<rparr>
   = [\<lparr>properties = Some \<lparr>prop_operador = Some ''Movistar'', prop_tecnologia = Some ''5G''\<rparr>\<rparr>,
      \<lparr>properties = Some \<lparr>prop_operador = Some ''Movistar'', prop_tecnologia = Some ''4G''\<rparr>\<rparr>]"
  using C8_filtered_set_is_the_records_matching_both_selections
    [of "[\<lparr>properties = Some \<lparr>prop_operador = Some ''Movistar'', prop_tecnologia = Some ''5G''\<rparr>\<rparr>,
      \<lparr>properties = Some \<lparr>prop_operador = Some ''Vodafone'', prop_tecnologia = Some ''5G''\<rparr>\<rparr>,
      \<lparr>properties = Some \<lparr>prop_operador = Some ''Movistar'', prop_tecnologia = Some ''4G''\<rparr>\<rparr>,
      \<lparr>properties = None\<rparr>]"
     "\<lparr>operador = ''Movistar'', tecnologia = [], viewport = None :: int viewport option\<rparr>"]
  by (simp add: matches_selection_def attribute_def)

text \<open>
  Claim C9. When the \<open>try\<close> block of \<open>handleViewportChange\<close> throws, the callback only
  logs the error: the controller state after the call is the state before it, so
  \<open>antenas\<close> is the prior data set and \<open>error\<close> is not set. Every failure of
  \<open>loadMapData\<close> for the locator of the viewport is such a throw.
\<close>

theorem C9_failed_viewport_update_keeps_the_data_set:
  "(\<forall>err w'. viewport_try pf fs v now net now' w = (Inl err, w') \<longrightarrow>
       handleViewportChange pf fs (Some v) now net now' (st, w)
         = (st, w'\<lparr>console := console w' @ [ViewportError err]\<rparr>)
     \<and> antenas (fst (handleViewportChange pf fs (Some v) now net now' (st, w))) = antenas st
     \<and> error (fst (handleViewportChange pf fs (Some v) now net now' (st, w))) = error st)
   \<and> (\<forall>e w1. loadMapData (viewport_locator pf fs v) now net now' w = (Inl e, w1) \<longrightarrow>
         viewport_try pf fs v now net now' w = (Inl e, w1))"
  by (simp add: handleViewportChange_def viewport_try_load_failure)

theorem C9_witness:
  "loadMapData
      (viewport_locator
         \<lparr>API_BASE = ''https://your-api.railway.app'', Number_toString = (\<lambda>n :: int. String_nat (nat n)),
          URLSearchParams_toString = (\<lambda>ps. join ''&'' (map (\<lambda>(k, v). k @ ''='' @ v) ps))\<rparr>
         \<lparr>operador = ''Movistar'', tecnologia = [], viewport = None\<rparr>
         \<lparr>bbox = [1, 2, 3, 4], zoom = 12\<rparr>)
      0 (Rejected \<lparr>name = ''TypeError'', message = ''Failed to fetch''\<rparr>) 1 (initial_world :: payload world)
    = (Inl (Error connection_message),
       \<lparr>CACHE = [], network = [''https://your-api.railway.app/map/antenas?bbox=1,2,3,4&zoom=12&operador=Movistar''],
        console = [ApiCall ''https://your-api.railway.app/map/antenas?bbox=1,2,3,4&zoom=12&operador=Movistar'',
                   ApiError ''https://your-api.railway.app/map/antenas?bbox=1,2,3,4&zoom=12&operador=Movistar''
                     \<lparr>name = ''TypeError'', message = ''Failed to fetch''\<rparr>]\<rparr>)
   \<and> fst (handleViewportChange
         \<lparr>API_BASE = ''https://your-api.railway.app'', Number_toString = (\<lambda>n :: int. String_nat (nat n)),
          URLSearchParams_toString = (\<lambda>ps. join ''&'' (map (\<lambda>(k, v). k @ ''='' @ v) ps))\<rparr>
         \<lparr>operador = ''Movistar'', tecnologia = [], viewport = None\<rparr>
         (Some \<lparr>bbox = [1, 2, 3, 4], zoom = 12\<rparr>)
         0 (Rejected \<lparr>name = ''TypeError'', message = ''Failed to fetch''\<rparr>) 1
         (\<lparr>antenas = [\<lparr>properties = None\<rparr>], stats = None, loading = False, error = None,
           filters = \<lparr>operador = ''Movistar'', tecnologia = [], viewport = None\<rparr>\<rparr>, initial_world))
     = \<lparr>antenas = [\<lparr>properties = None\<rparr>], stats = None, loading = False, error = None,
           filters = \<lparr>operador = ''Movistar'', tecnologia = [], viewport = None\<rparr>\<rparr>"
proof -
  let ?pf = "\<lparr>API_BASE = ''https://your-api.railway.app'', Number_toString = (\<lambda>n :: int. String_nat (nat n)),
          URLSearchParams_toString = (\<lambda>ps. join ''&'' (map (\<lambda>(k, v). k @ ''='' @ v) ps))\<rparr>"
  let ?fs = "\<lparr>operador = ''Movistar'', tecnologia = [], viewport = None :: int viewport option\<rparr>"
  let ?v = "\<lparr>bbox = [1, 2, 3, 4 :: int], zoom = 12\<rparr>"
  let ?net = "Rejected \<lparr>name = ''TypeError'', message = ''Failed to fetch''\<rparr> :: payload fetch_result"
  let ?url = "''https://your-api.railway.app/map/antenas?bbox=1,2,3,4&zoom=12&operador=Movistar''"
  let ?w1 = "\<lparr>CACHE = [] :: payload cache, network = [?url],
        console = [ApiCall ?url, ApiError ?url \<lparr>name = ''TypeError'', message = ''Failed to fetch''\<rparr>]\<rparr>"
  let ?st = "\<lparr>antenas = [\<lparr>properties = None\<rparr>], stats = None, loading = False, error = None,
           filters = ?fs\<rparr>"
  have u: "viewport_locator ?pf ?fs ?v = ?url"
    by (simp add: viewport_locator_def String_nat.simps)
  have l: "loadMapData (viewport_locator ?pf ?fs ?v) 0 ?net 1 initial_world
             = (Inl (Error connection_message), ?w1)"
    unfolding u
    by (simp add: loadMapData_def load_start_def load_finish_def load_try_def load_catch_def
        initial_world_def)
  note inst = C9_failed_viewport_update_keeps_the_data_set [of ?pf ?fs ?v 0 ?net 1 initial_world ?st]
  from inst l have t: "viewport_try ?pf ?fs ?v 0 ?net 1 initial_world = (Inl (Error connection_message), ?w1)"
    by blast
  with inst have "handleViewportChange ?pf ?fs (Some ?v) 0 ?net 1 (?st, initial_world)
         = (?st, ?w1\<lparr>console := console ?w1 @ [ViewportError (Error connection_message)]\<rparr>)"
    by blast
  then have f: "fst (handleViewportChange ?pf ?fs (Some ?v) 0 ?net 1 (?st, initial_world)) = ?st"
    by simp
  from l f show ?thesis by (rule conjI)
qed

text \<open>
  Claim C10. An entry whose age is exactly \<open>CACHE_DURATION\<close> is stale for
  \<open>loadMapData\<close>, which does not serve it and hands a request to \<open>fetch\<close>, and is not
  removed by a sweep at that moment: the lookup asks for an age strictly below the
  duration, the sweep for an age strictly above it.
\<close>

theorem C10_entry_of_age_exactly_the_TTL:
  assumes "reachable w" and "Map_get (CACHE w) url = Some cached"
    and "now - timestamp cached = CACHE_DURATION"
  shows "fst (load_start url now w) = None
       \<and> network (snd (loadMapData url now net now' w)) = network w @ [url]
       \<and> Map_get (CACHE (sweep now w)) url = Some cached"
proof -
  from assms(2,3)
  have s: "load_start url now w
             = (None, w\<lparr>network := network w @ [url], console := console w @ [ApiCall url]\<rparr>)"
    by (simp add: load_start_def)
  have n: "network (snd (loadMapData url now net now' w)) = network w @ [url]"
    by (simp add: loadMapData_def s network_load_finish)
  from assms(1) have "Map_inv (CACHE w)" by (rule reachable_Map_inv)
  then have "Map_get (CACHE (sweep now w)) url = Some cached"
    using assms(2,3) by (simp add: Map_get_sweep)
  with s n show ?thesis by simp
qed

theorem C10_witness:
  "reachable (snd (loadMapData ''/a'' 0 (Resolved \<lparr>status = 200, statusText = ''OK'', json = Inr (7::nat)\<rparr>) 1
                  initial_world))
   \<and> (300001::int) - 1 = CACHE_DURATION
   \<and> network (snd (loadMapData ''/a'' 300001 (Rejected (Error ''offline'')) 300002
        (snd (loadMapData ''/a'' 0 (Resolved \<lparr>status = 200, statusText = ''OK'', json = Inr (7::nat)\<rparr>) 1
                  initial_world)))) = [''/a'', ''/a'']
   \<and> Map_get (CACHE (sweep 300001
        (snd (loadMapData ''/a'' 0 (Resolved \<lparr>status = 200, statusText = ''OK'', json = Inr (7::nat)\<rparr>) 1
                  initial_world)))) ''/a'' = Some \<lparr>data = 7, timestamp = 1\<rparr>"
proof -
  let ?w = "snd (loadMapData ''/a'' 0 (Resolved \<lparr>status = 200, statusText = ''OK'', json = Inr (7::nat)\<rparr>) 1
                  initial_world)"
  have r: "reachable ?w"
    by (intro reachable_loadMapData reachable.r_init)
  have w: "?w = \<lparr>CACHE = [(''/a'', \<lparr>data = 7, timestamp = 1\<rparr>)], network = [''/a''],
                 console = [ApiCall ''/a'', ApiSuccess ''/a'']\<rparr>"
    by (simp add: loadMapData_def load_start_def load_finish_def load_try_def ok_def
        initial_world_def CACHE_DURATION_def)
  have g: "Map_get (CACHE ?w) ''/a'' = Some \<lparr>data = 7, timestamp = 1\<rparr>" by (simp add: w)
  have a: "(300001::int) - timestamp \<lparr>data = 7::nat, timestamp = 1\<rparr> = CACHE_DURATION"
    by (simp add: CACHE_DURATION_def)
  from C10_entry_of_age_exactly_the_TTL [OF r g a, of "Rejected (Error ''offline'')" 300002] r a
  show ?thesis by (simp add: w)
qed

end
